theory Spec2Isabelle
  imports Complex_Main "HOL-Library.Signed_Division"
begin

section \<open>Number types\<close>

text \<open>
  The library is a set of templates over a number type \<open>T\<close>. Two kinds of number types
  are modelled: \<open>int\<close>, with 32 bits, and floating-point types.

  A value of \<open>int\<close> is a mathematical integer between \<open>INT_MIN\<close> and \<open>INT_MAX\<close>. The
  operators \<open>+ - * /\<close> are given by their mathematical results; wherever a result is
  stored in an \<open>int\<close>, passed as an \<open>int\<close> or converted to \<open>int\<close>, the model asks that
  it is representable, and the operation is undefined (\<open>None\<close>) when it is not, as
  signed overflow and an out-of-range conversion are in C++. Integer division by
  zero and a read past the end of a range are undefined as well. Every \<open>int\<close> is
  exactly a \<open>double\<close>, so the \<open><cmath>\<close> functions, which compute in \<open>double\<close>, are exact
  on \<open>int\<close> arguments.

  A floating-point value is a NaN, an infinity or a finite real number. The sign of a
  zero is not recorded. A floating-point type is described by its rank among the
  floating-point types and by its rounding: the function that maps the exact result
  of an operation to the value of the type that the operation returns.
\<close>

subsection \<open>The type \<open>int\<close>\<close>

definition INT_MAX :: int where
  "INT_MAX = 2147483647"

definition INT_MIN :: int where
  "INT_MIN = - 2147483648"

definition representable :: "int \<Rightarrow> bool" where
  "representable i \<longleftrightarrow> INT_MIN \<le> i \<and> i \<le> INT_MAX"

text \<open>A mathematical result as a value of \<open>int\<close>.\<close>

definition to_int :: "int \<Rightarrow> int option" where
  "to_int i = (if representable i then Some i else None)"

text \<open>\<open>a / b\<close> on \<open>int\<close>: the quotient truncated towards zero; undefined for \<open>b = 0\<close>.\<close>

definition int_divide :: "int \<Rightarrow> int \<Rightarrow> int option" where
  "int_divide a b = (if b = 0 then None else Some (a sdiv b))"


text \<open>
  \<open>std::fmod(x, y)\<close> on \<open>int\<close> arguments: \<open>x - n * y\<close> with \<open>n\<close> the quotient truncated
  towards zero, so the result has the sign of \<open>x\<close> and a magnitude below that of \<open>y\<close>.
  For \<open>y = 0\<close> the result is NaN, which has no integer value.
\<close>

definition fmod :: "int \<Rightarrow> int \<Rightarrow> int option" where
  "fmod x y = (if y = 0 then None else Some (x - (x sdiv y) * y))"

text \<open>
  The integer nearest to the exact quotient \<open>x / y\<close>, the even one of the two when the
  quotient lies halfway between two integers (the quotient of IEEE \<open>remainder\<close>).
\<close>

definition nearest_quotient :: "int \<Rightarrow> int \<Rightarrow> int" where
  "nearest_quotient x y =
     (let a = (if y < 0 then - x else x);
          b = \<bar>y\<bar>;
          q = a div b;
          r = a mod b
      in if 2 * r < b then q
         else if b < 2 * r then q + 1
         else if even q then q else q + 1)"

text \<open>
  \<open>std::remainder(x, y)\<close> on \<open>int\<close> arguments: \<open>x - n * y\<close> with \<open>n\<close> as above; NaN for
  \<open>y = 0\<close>.
\<close>

definition remainder :: "int \<Rightarrow> int \<Rightarrow> int option" where
  "remainder x y = (if y = 0 then None else Some (x - nearest_quotient x y * y))"

text \<open>\<open>std::nearbyint\<close> of an integral argument is the argument.\<close>

definition nearbyint :: "int \<Rightarrow> int" where
  "nearbyint x = x"

subsection \<open>Floating-point values\<close>

datatype fp = NaN | PInf | NInf | Finite real

text \<open>The comparisons \<open><\<close> and \<open>==\<close> of IEEE arithmetic: false whenever a NaN takes part.\<close>

fun fp_less :: "fp \<Rightarrow> fp \<Rightarrow> bool" where
  "fp_less (Finite a) (Finite b) = (a < b)"
| "fp_less (Finite a) PInf = True"
| "fp_less NInf (Finite b) = True"
| "fp_less NInf PInf = True"
| "fp_less _ _ = False"

fun fp_equal :: "fp \<Rightarrow> fp \<Rightarrow> bool" where
  "fp_equal (Finite a) (Finite b) = (a = b)"
| "fp_equal PInf PInf = True"
| "fp_equal NInf NInf = True"
| "fp_equal _ _ = False"

instantiation fp :: "{zero, one, ord}"
begin

definition zero_fp :: fp where
  "zero_fp = Finite 0"

definition one_fp :: fp where
  "one_fp = Finite 1"

definition less_fp :: "fp \<Rightarrow> fp \<Rightarrow> bool" where
  "less_fp a b = fp_less a b"

definition less_eq_fp :: "fp \<Rightarrow> fp \<Rightarrow> bool" where
  "less_eq_fp a b = (fp_less a b \<or> fp_equal a b)"

instance ..

end


fun fp_add :: "(real \<Rightarrow> fp) \<Rightarrow> fp \<Rightarrow> fp \<Rightarrow> fp" where
  "fp_add rnd (Finite a) (Finite b) = rnd (a + b)"
| "fp_add rnd NaN _ = NaN"
| "fp_add rnd _ NaN = NaN"
| "fp_add rnd PInf NInf = NaN"
| "fp_add rnd NInf PInf = NaN"
| "fp_add rnd PInf _ = PInf"
| "fp_add rnd _ PInf = PInf"
| "fp_add rnd NInf _ = NInf"
| "fp_add rnd _ NInf = NInf"


text \<open>An infinity with the sign of a non-zero real number.\<close>

definition infinity_of_sign :: "real \<Rightarrow> fp" where
  "infinity_of_sign s = (if 0 < s then PInf else NInf)"

fun fp_sign :: "fp \<Rightarrow> real" where
  "fp_sign (Finite a) = sgn a"
| "fp_sign PInf = 1"
| "fp_sign NInf = - 1"
| "fp_sign NaN = 0"

fun fp_mul :: "(real \<Rightarrow> fp) \<Rightarrow> fp \<Rightarrow> fp \<Rightarrow> fp" where
  "fp_mul rnd (Finite a) (Finite b) = rnd (a * b)"
| "fp_mul rnd NaN _ = NaN"
| "fp_mul rnd _ NaN = NaN"
| "fp_mul rnd a b =
     (if fp_sign a * fp_sign b = 0 then NaN else infinity_of_sign (fp_sign a * fp_sign b))"

text \<open>Division; a zero divisor counts as \<open>+0\<close>.\<close>

fun fp_div :: "(real \<Rightarrow> fp) \<Rightarrow> fp \<Rightarrow> fp \<Rightarrow> fp" where
  "fp_div rnd (Finite a) (Finite b) =
     (if b \<noteq> 0 then rnd (a / b) else if a = 0 then NaN else infinity_of_sign a)"
| "fp_div rnd NaN _ = NaN"
| "fp_div rnd _ NaN = NaN"
| "fp_div rnd (Finite a) _ = Finite 0"
| "fp_div rnd a (Finite b) = infinity_of_sign (fp_sign a * (if b < 0 then - 1 else 1))"
| "fp_div rnd _ _ = NaN"

text \<open>
  \<open>std::fmod\<close> and \<open>std::remainder\<close> on floating-point arguments. Their results are
  exact: \<open>x - n * y\<close> with \<open>n\<close> the quotient truncated towards zero, or rounded to the
  nearest integer and to the even one on a tie. The result is NaN for an infinite \<open>x\<close>
  and for \<open>y = 0\<close>, and \<open>x\<close> for a finite \<open>x\<close> and an infinite \<open>y\<close>.
\<close>

definition trunc :: "real \<Rightarrow> int" where
  "trunc q = (if 0 \<le> q then \<lfloor>q\<rfloor> else - \<lfloor>- q\<rfloor>)"

definition round_half_even :: "real \<Rightarrow> int" where
  "round_half_even q =
     (let f = \<lfloor>q\<rfloor>; d = q - of_int f
      in if d < 1 / 2 then f
         else if 1 / 2 < d then f + 1
         else if even f then f else f + 1)"

fun fp_fmod :: "fp \<Rightarrow> fp \<Rightarrow> fp" where
  "fp_fmod (Finite a) (Finite b) =
     (if b = 0 then NaN else Finite (a - of_int (trunc (a / b)) * b))"
| "fp_fmod (Finite a) PInf = Finite a"
| "fp_fmod (Finite a) NInf = Finite a"
| "fp_fmod _ _ = NaN"

fun fp_remainder :: "fp \<Rightarrow> fp \<Rightarrow> fp" where
  "fp_remainder (Finite a) (Finite b) =
     (if b = 0 then NaN else Finite (a - of_int (round_half_even (a / b)) * b))"
| "fp_remainder (Finite a) PInf = Finite a"
| "fp_remainder (Finite a) NInf = Finite a"
| "fp_remainder _ _ = NaN"

subsection \<open>Number types and their values\<close>

datatype scalar_type = Int_type | Floating_type nat "real \<Rightarrow> fp"

datatype number = Int_val int | Fp_val fp

text \<open>A value has a type when it is of the type's kind and, for \<open>int\<close>, representable.\<close>

fun has_type :: "scalar_type \<Rightarrow> number \<Rightarrow> bool" where
  "has_type Int_type (Int_val i) = representable i"
| "has_type (Floating_type k rnd) (Fp_val x) = True"
| "has_type _ _ = False"

text \<open>
  \<open>std::common_type\<close> of two number types: \<open>int\<close> for two \<open>int\<close>s, otherwise the
  floating-point type of the higher rank.
\<close>

fun common_type :: "scalar_type \<Rightarrow> scalar_type \<Rightarrow> scalar_type" where
  "common_type Int_type Int_type = Int_type"
| "common_type Int_type (Floating_type k rnd) = Floating_type k rnd"
| "common_type (Floating_type k rnd) Int_type = Floating_type k rnd"
| "common_type (Floating_type k1 rnd1) (Floating_type k2 rnd2) =
     (if k1 < k2 then Floating_type k2 rnd2 else Floating_type k1 rnd1)"

text \<open>
  \<open>T(x)\<close>, the conversion of a value \<open>x\<close> of the type \<open>S\<close> to the type \<open>T\<close>: the identity
  on the same kind of type when \<open>T\<close> is not of a lower rank, the rounded value for an
  \<open>int\<close> converted to a floating-point type, the rounded value for a conversion to a
  lower rank, and the truncated value for a finite floating-point value converted to
  \<open>int\<close>, which is undefined when the truncated value is not representable.
\<close>

fun cast :: "scalar_type \<Rightarrow> scalar_type \<Rightarrow> number \<Rightarrow> number option" where
  "cast Int_type Int_type (Int_val i) = map_option Int_val (to_int i)"
| "cast Int_type (Floating_type k rnd) (Int_val i) = Some (Fp_val (rnd (of_int i)))"
| "cast (Floating_type k1 rnd1) (Floating_type k2 rnd2) (Fp_val (Finite r)) =
     Some (Fp_val (if k1 \<le> k2 then Finite r else rnd2 r))"
| "cast (Floating_type k1 rnd1) (Floating_type k2 rnd2) (Fp_val x) = Some (Fp_val x)"
| "cast (Floating_type k rnd) Int_type (Fp_val (Finite r)) =
     map_option Int_val (to_int (trunc r))"
| "cast _ _ _ = None"

text \<open>The literal \<open>n\<close> as a value of the type \<open>T\<close>.\<close>

fun literal :: "scalar_type \<Rightarrow> int \<Rightarrow> number" where
  "literal Int_type n = Int_val n"
| "literal (Floating_type k rnd) n = Fp_val (rnd (of_int n))"

text \<open>
  The operators of a number type \<open>T\<close> on two values of \<open>T\<close>; on \<open>int\<close> the result has to
  be representable.
\<close>

fun num_less :: "number \<Rightarrow> number \<Rightarrow> bool" where
  "num_less (Int_val i) (Int_val j) = (i < j)"
| "num_less (Fp_val x) (Fp_val y) = (x < y)"
| "num_less (Int_val i) (Fp_val y) = (Finite (of_int i) < y)"
| "num_less (Fp_val x) (Int_val j) = (x < Finite (of_int j))"

fun num_add :: "scalar_type \<Rightarrow> number \<Rightarrow> number \<Rightarrow> number option" where
  "num_add Int_type (Int_val i) (Int_val j) = map_option Int_val (to_int (i + j))"
| "num_add (Floating_type k rnd) (Fp_val x) (Fp_val y) = Some (Fp_val (fp_add rnd x y))"
| "num_add _ _ _ = None"

fun num_mul :: "scalar_type \<Rightarrow> number \<Rightarrow> number \<Rightarrow> number option" where
  "num_mul Int_type (Int_val i) (Int_val j) = map_option Int_val (to_int (i * j))"
| "num_mul (Floating_type k rnd) (Fp_val x) (Fp_val y) = Some (Fp_val (fp_mul rnd x y))"
| "num_mul _ _ _ = None"

fun num_div :: "scalar_type \<Rightarrow> number \<Rightarrow> number \<Rightarrow> number option" where
  "num_div Int_type (Int_val i) (Int_val j) =
     (case int_divide i j of None \<Rightarrow> None | Some q \<Rightarrow> map_option Int_val (to_int q))"
| "num_div (Floating_type k rnd) (Fp_val x) (Fp_val y) = Some (Fp_val (fp_div rnd x y))"
| "num_div _ _ _ = None"

text \<open>
  \<open>v = fmod(v, t)\<close> for two values of the type \<open>T\<close>: on \<open>int\<close> the \<open>double\<close> result is
  converted back to \<open>int\<close>.
\<close>

fun num_fmod :: "scalar_type \<Rightarrow> number \<Rightarrow> number \<Rightarrow> number option" where
  "num_fmod Int_type (Int_val i) (Int_val j) =
     (case fmod i j of None \<Rightarrow> None | Some w \<Rightarrow> map_option Int_val (to_int w))"
| "num_fmod (Floating_type k rnd) (Fp_val x) (Fp_val y) = Some (Fp_val (fp_fmod x y))"
| "num_fmod _ _ _ = None"

text \<open>
  What a template reads from \<open>T\<close> through \<open>traits.h\<close> and \<open>std::numeric_limits\<close> (neither
  is part of the sources at hand): \<open>is_integral<T>::value\<close> and
  \<open>numeric_limits<T>::epsilon()\<close>.
\<close>

record 'a number_type =
  is_integral :: bool
  epsilon :: 'a

definition int_type :: "int number_type" where
  "int_type = \<lparr>is_integral = True, epsilon = 0\<rparr>"

section \<open>Angles (\<open>angle.h\<close>)\<close>

subsection \<open>Turn policies\<close>

text \<open>
  A turn policy is a struct template over a number type, with the member type \<open>type\<close>
  and the static member \<open>value\<close>, the size of a full turn as a value of \<open>type\<close>. Two
  policies are the same type (\<open>std::is_same\<close>) when they are the same template at the
  same number type.
\<close>

record turn_policy =
  turn_name :: string
  turn_type :: scalar_type
  turn_value :: number

definition degrees_turn :: "scalar_type \<Rightarrow> turn_policy" where
  "degrees_turn T = \<lparr>turn_name = ''degrees_turn'', turn_type = T, turn_value = literal T 360\<rparr>"

definition arcmins_turn :: "scalar_type \<Rightarrow> turn_policy" where
  "arcmins_turn T = \<lparr>turn_name = ''arcmins_turn'', turn_type = T, turn_value = literal T 21600\<rparr>"

definition arcsecs_turn :: "scalar_type \<Rightarrow> turn_policy" where
  "arcsecs_turn T =
     \<lparr>turn_name = ''arcsecs_turn'', turn_type = T, turn_value = literal T 1296000\<rparr>"

text \<open>
  \<open>pi<T>\<close> is declared outside the sources at hand; the value of
  \<open>static_cast<type>(2 * pi<type>)\<close> is a parameter here.
\<close>

definition radians_turn :: "scalar_type \<Rightarrow> number \<Rightarrow> turn_policy" where
  "radians_turn T two_pi = \<lparr>turn_name = ''radians_turn'', turn_type = T, turn_value = two_pi\<rparr>"

definition gons_turn :: "scalar_type \<Rightarrow> turn_policy" where
  "gons_turn T = \<lparr>turn_name = ''gons_turn'', turn_type = T, turn_value = literal T 400\<rparr>"

definition gon_cs_turn :: "scalar_type \<Rightarrow> turn_policy" where
  "gon_cs_turn T = \<lparr>turn_name = ''gon_cs_turn'', turn_type = T, turn_value = literal T 40000\<rparr>"

definition gon_ccs_turn :: "scalar_type \<Rightarrow> turn_policy" where
  "gon_ccs_turn T =
     \<lparr>turn_name = ''gon_ccs_turn'', turn_type = T, turn_value = literal T 4000000\<rparr>"

subsection \<open>The class \<open>angle<Turn>\<close>\<close>

text \<open>
  An angle stores one number of the type \<open>Turn::type\<close>. The template argument \<open>Turn\<close> of
  a member function is the first argument of its model.
\<close>

record angle =
  angle_v :: number

definition turn :: "turn_policy \<Rightarrow> number" where
  "turn Turn = turn_value Turn"

text \<open>The explicit constructor from a number.\<close>

definition angle_ctor :: "number \<Rightarrow> angle" where
  "angle_ctor a = \<lparr>angle_v = a\<rparr>"

text \<open>
  \<open>normalize()\<close>: the stored value is replaced only when it is less than
  \<open>numeric_type(0)\<close> or greater than a turn.
\<close>

definition normalize :: "turn_policy \<Rightarrow> angle \<Rightarrow> angle option" where
  "normalize Turn a =
     (let T = turn_type Turn in
      if num_less (angle_v a) (literal T 0) \<or> num_less (turn Turn) (angle_v a) then
        (case num_fmod T (angle_v a) (turn Turn) of
           None \<Rightarrow> None
         | Some w \<Rightarrow>
             if num_less w (literal T 0)
             then map_option (\<lambda>s. a\<lparr>angle_v := s\<rparr>) (num_add T w (turn Turn))
             else Some (a\<lparr>angle_v := w\<rparr>))
      else Some a)"

text \<open>
  \<open>as<OutTurn>()\<close>: overload resolution picks the first body when \<open>OutTurn\<close> is the
  angle's own policy and the second otherwise. The second converts the two turn values
  and the stored value to the common type \<open>T\<close> of the two policies' number types,
  divides the turn values and multiplies the quotient by the stored value, all in \<open>T\<close>.
\<close>

definition conversion_t :: "turn_policy \<Rightarrow> turn_policy \<Rightarrow> scalar_type" where
  "conversion_t Turn OutTurn = common_type (turn_type OutTurn) (turn_type Turn)"

definition as :: "turn_policy \<Rightarrow> turn_policy \<Rightarrow> angle \<Rightarrow> number option" where
  "as Turn OutTurn a =
     (if Turn = OutTurn then Some (angle_v a)
      else
        (let T = conversion_t Turn OutTurn in
         case cast (turn_type OutTurn) T (turn_value OutTurn) of
           None \<Rightarrow> None
         | Some out \<Rightarrow>
            (case cast (turn_type Turn) T (turn Turn) of
               None \<Rightarrow> None
             | Some full \<Rightarrow>
                (case cast (turn_type Turn) T (angle_v a) of
                   None \<Rightarrow> None
                 | Some x \<Rightarrow>
                    (case num_div T out full of
                       None \<Rightarrow> None
                     | Some q \<Rightarrow> num_mul T q x)))))"

section \<open>Approximate equality (\<open>equality.h\<close>)\<close>

text \<open>
  \<open>approx_equal(a, b)\<close>: the tolerances \<open>tolerance<T1>\<close> and \<open>tolerance<T2>\<close> come from
  \<open>limits.h\<close>, which is not part of the sources at hand, and are parameters.
\<close>

definition approx_equal :: "'a::{ord,plus,minus} \<Rightarrow> 'a \<Rightarrow> 'a \<Rightarrow> 'a \<Rightarrow> bool" where
  "approx_equal tolerance_T1 tolerance_T2 a b =
     (if tolerance_T1 < tolerance_T2
      then a \<ge> b - tolerance_T2 \<and> a \<le> b + tolerance_T2
      else b \<ge> a - tolerance_T1 \<and> b \<le> a + tolerance_T1)"

text \<open>\<open>approx_equal(a, b, tolerance)\<close>, with the three arguments of one number type.\<close>

definition approx_equal_tol :: "'a::{ord,plus,minus} \<Rightarrow> 'a \<Rightarrow> 'a \<Rightarrow> bool" where
  "approx_equal_tol a b tolerance = (a \<ge> b - tolerance \<and> a \<le> b + tolerance)"

text \<open>
  \<open>approx_equal(begin1, end1, begin2, tolerance)\<close>. The first range is the list of its
  elements; the second argument is the list of the elements that can be read from
  \<open>begin2\<close> on. The loop advances both iterators until the first reaches \<open>end1\<close>;
  reading past the last element behind \<open>begin2\<close> is undefined.
\<close>

fun approx_equal_range :: "'a::{minus,abs,ord} list \<Rightarrow> 'a list \<Rightarrow> 'a \<Rightarrow> bool option" where
  "approx_equal_range [] ys tolerance = Some True"
| "approx_equal_range (x # xs) [] tolerance = None"
| "approx_equal_range (x # xs) (y # ys) tolerance =
     (if abs (x - y) > tolerance then Some False else approx_equal_range xs ys tolerance)"

text \<open>
  \<open>approx_equal(begin1, end1, begin2, end2, tolerance)\<close>: the fourth iterator, here the
  position of \<open>end2\<close> behind \<open>begin2\<close>, is an unnamed parameter.
\<close>

definition approx_equal_range_ends ::
  "'a::{minus,abs,ord} list \<Rightarrow> 'a list \<Rightarrow> nat \<Rightarrow> 'a \<Rightarrow> bool option" where
  "approx_equal_range_ends xs ys end2 tolerance = approx_equal_range xs ys tolerance"

section \<open>Rounded numbers (\<open>rounded.h\<close>)\<close>

subsection \<open>Rounding methods\<close>

text \<open>
  The two rounding methods are the alternatives of one datatype: the stateless
  \<open>round_to_nearest_int\<close> and \<open>round_to_nearest<T>\<close> with its private member \<open>unit_\<close>.
\<close>

datatype 'a rounding_method = Round_to_nearest_int | Round_to_nearest (unit_of: 'a)

text \<open>The constructor of \<open>round_to_nearest<T>\<close>, for the number type described by \<open>T\<close>.\<close>

definition round_to_nearest :: "'a::{zero,one,ord} number_type \<Rightarrow> 'a \<Rightarrow> 'a rounding_method" where
  "round_to_nearest T unit =
     Round_to_nearest (if unit \<le> 0 then (if is_integral T then 1 else epsilon T) else unit)"

text \<open>
  \<open>operator()\<close> of a rounding method on \<open>T = int\<close>. The argument is an \<open>int\<close>. The
  expression \<open>x - remainder(x, unit_)\<close> is a \<open>double\<close>, which the return converts to
  \<open>int\<close>; the result is undefined where \<open>remainder\<close> yields NaN and where the difference
  is not representable.
\<close>

fun rounding_method_call :: "int rounding_method \<Rightarrow> int \<Rightarrow> int option" where
  "rounding_method_call Round_to_nearest_int x =
     (case to_int x of
        None \<Rightarrow> None
      | Some x' \<Rightarrow> to_int (if is_integral int_type then x' else nearbyint x'))"
| "rounding_method_call (Round_to_nearest u) x =
     (case to_int x of
        None \<Rightarrow> None
      | Some x' \<Rightarrow>
         (case remainder x' u of None \<Rightarrow> None | Some r \<Rightarrow> to_int (x' - r)))"



text \<open>
  \<open>rounding_method()\<close>, the default-constructed method of the same type: the default
  argument of \<open>round_to_nearest<T>\<close>'s constructor is \<open>T(0)\<close>.
\<close>

definition default_rounding_method :: "int rounding_method \<Rightarrow> int rounding_method" where
  "default_rounding_method rm =
     (case rm of
        Round_to_nearest_int \<Rightarrow> Round_to_nearest_int
      | Round_to_nearest u \<Rightarrow> round_to_nearest int_type 0)"

subsection \<open>The class \<open>rounded<T, RoundingMethod>\<close>\<close>

text \<open>
  A rounded number over \<open>T = int\<close> is its rounding method (the private base class)
  and the member \<open>v_\<close>. A member function that modifies the object returns the
  modified object, or \<open>None\<close> where the C++ operation is undefined; the raw result
  of the arithmetic is the argument of \<open>corrected\<close>, an \<open>int\<close>, so an operation whose
  raw result is not representable is undefined.
\<close>

record rounded =
  policy :: "int rounding_method"
  rounded_v :: int

definition rounded_value :: "rounded \<Rightarrow> int" where
  "rounded_value x = rounded_v x"

text \<open>The member \<open>corrected(v)\<close> and the static \<open>corrected(v, rm)\<close>.\<close>

definition corrected :: "rounded \<Rightarrow> int \<Rightarrow> int option" where
  "corrected x w = rounding_method_call (policy x) w"

definition corrected_with :: "int \<Rightarrow> int rounding_method \<Rightarrow> int option" where
  "corrected_with w rm = rounding_method_call rm w"

text \<open>Construction from a value and a rounding method, and from a method alone.\<close>

definition rounded_ctor :: "int \<Rightarrow> int rounding_method \<Rightarrow> rounded option" where
  "rounded_ctor w rm =
     (case corrected_with w rm of
        None \<Rightarrow> None
      | Some c \<Rightarrow> Some \<lparr>policy = rm, rounded_v = c\<rparr>)"

definition rounded_ctor_method :: "int rounding_method \<Rightarrow> rounded" where
  "rounded_ctor_method rp = \<lparr>policy = rp, rounded_v = 0\<rparr>"

text \<open>\<open>operator = (const value_type&)\<close>: \<open>v_ = corrected(v)\<close>.\<close>

definition assign_value :: "rounded \<Rightarrow> int \<Rightarrow> rounded option" where
  "assign_value x w =
     (case corrected x w of
        None \<Rightarrow> None
      | Some c \<Rightarrow> Some (x\<lparr>rounded_v := c\<rparr>))"

text \<open>Compound assignment with a plain number: \<open>v_ = corrected(v_ + v)\<close> and so on.\<close>

definition add_assign :: "rounded \<Rightarrow> int \<Rightarrow> rounded option" where
  "add_assign x w = assign_value x (rounded_v x + w)"













subsection \<open>Free arithmetic operators on rounded numbers\<close>
















text \<open>
  Unary minus: \<open>rounded<T,R>{-x.value()}\<close>, whose second constructor argument is the
  default \<open>rounding_method()\<close>.
\<close>

definition uminus_rounded :: "rounded \<Rightarrow> rounded option" where
  "uminus_rounded x = rounded_ctor (- rounded_value x) (default_rounding_method (policy x))"

section \<open>An example of a rounding\<close>

text \<open>
  Rounding to the nearest multiple of \<open>1/1024\<close>, used to instantiate the statements on
  floating-point types: it is monotone and keeps the integers.
\<close>

definition fixed_point_rounding :: "real \<Rightarrow> fp" where
  "fixed_point_rounding x = Finite (of_int \<lfloor>x * 1024 + 1 / 2\<rfloor> / 1024)"

text \<open>A value as a floating-point number of a type with the rounding \<open>rnd\<close>.\<close>

fun to_fp :: "(real \<Rightarrow> fp) \<Rightarrow> number \<Rightarrow> fp" where
  "to_fp rnd (Int_val i) = rnd (of_int i)"
| "to_fp rnd (Fp_val x) = x"

section \<open>Predicates of the specification\<close>

text \<open>
  A rounding method over \<open>int\<close> that a constructor can produce: \<open>unit_\<close> is a private
  \<open>int\<close> and only the constructor of \<open>round_to_nearest\<close> writes it.
\<close>

definition constructed :: "int rounding_method \<Rightarrow> bool" where
  "constructed rm \<longleftrightarrow>
     (case rm of
        Round_to_nearest_int \<Rightarrow> True
      | Round_to_nearest u \<Rightarrow> 0 < u \<and> representable u)"





text \<open>The number type \<open>double\<close> as the constructor of \<open>round_to_nearest\<close> reads it.\<close>

definition double_type :: "fp number_type" where
  "double_type = \<lparr>is_integral = False, epsilon = Finite (1 / 2 ^ 52)\<rparr>"

declare rounding_method_call.simps [simp del]

section \<open>Properties of the number model\<close>

text \<open>
  On \<open>int\<close> arguments the functions \<open>fmod\<close> and \<open>remainder\<close> return what their
  floating-point definitions return on the same numbers: the model of \<open><cmath>\<close> on
  \<open>int\<close> is the computation in \<open>double\<close>.
\<close>

lemma trunc_sgn: "of_int (trunc q) = sgn q * of_int \<lfloor>\<bar>q\<bar>\<rfloor>"
  by (simp add: trunc_def sgn_if)

lemma trunc_quotient_of_int:
  "trunc (of_int x / of_int y) = x sdiv y"
proof -
  let ?q = "real_of_int x / real_of_int y"
  have abs: "\<bar>?q\<bar> = of_int \<bar>x\<bar> / of_int \<bar>y\<bar>"
    by simp
  have fl: "\<lfloor>\<bar>?q\<bar>\<rfloor> = \<bar>x\<bar> div \<bar>y\<bar>"
    unfolding abs by (rule floor_divide_of_int_eq)
  have sg: "sgn ?q = of_int (sgn x * sgn y)"
    by (auto simp add: sgn_if zero_less_divide_iff divide_less_0_iff)
  have "real_of_int (trunc ?q) = of_int (sgn x * sgn y * (\<bar>x\<bar> div \<bar>y\<bar>))"
    unfolding trunc_sgn fl sg by simp
  then have "trunc ?q = sgn x * sgn y * (\<bar>x\<bar> div \<bar>y\<bar>)"
    by (simp only: of_int_eq_iff)
  then show ?thesis
    by (simp add: signed_divide_int_def)
qed

lemma fp_fmod_of_int:
  assumes "fmod x y = Some w"
  shows "fp_fmod (Finite (of_int x)) (Finite (of_int y)) = Finite (of_int w)"
proof -
  from assms have y: "y \<noteq> 0" and w: "w = x - (x sdiv y) * y"
    by (auto simp add: fmod_def split: if_splits)
  show ?thesis
    using y by (simp add: trunc_quotient_of_int w)
qed

lemma round_half_even_quotient_of_int:
  assumes "y \<noteq> 0"
  shows "round_half_even (of_int x / of_int y) = nearest_quotient x y"
proof -
  define a where "a = (if y < 0 then - x else x)"
  define b where "b = \<bar>y\<bar>"
  define q where "q = a div b"
  define r where "r = a mod b"
  have b: "0 < b" using assms by (simp add: b_def)
  have quot: "real_of_int x / real_of_int y = of_int a / of_int b"
    by (simp add: a_def b_def)
  have fl: "\<lfloor>real_of_int a / real_of_int b\<rfloor> = q"
    unfolding q_def by (rule floor_divide_of_int_eq)
  have a: "a = q * b + r"
    by (simp add: q_def r_def)
  have d: "real_of_int a / real_of_int b - of_int q = of_int r / of_int b"
    using b by (simp add: a field_simps)
  have lt: "real_of_int r / real_of_int b < 1 / 2 \<longleftrightarrow> 2 * r < b"
  proof -
    have "real_of_int r / real_of_int b < 1 / 2 \<longleftrightarrow> real_of_int (2 * r) < real_of_int b"
      using b by (simp add: field_simps)
    then show ?thesis by (simp only: of_int_less_iff)
  qed
  have gt: "1 / 2 < real_of_int r / real_of_int b \<longleftrightarrow> b < 2 * r"
  proof -
    have "1 / 2 < real_of_int r / real_of_int b \<longleftrightarrow> real_of_int b < real_of_int (2 * r)"
      using b by (simp add: field_simps)
    then show ?thesis by (simp only: of_int_less_iff)
  qed
  have "round_half_even (of_int a / of_int b) =
      (if 2 * r < b then q else if b < 2 * r then q + 1 else if even q then q else q + 1)"
    unfolding round_half_even_def Let_def fl d lt gt by (rule refl)
  moreover have "nearest_quotient x y =
      (if 2 * r < b then q else if b < 2 * r then q + 1 else if even q then q else q + 1)"
    by (simp add: nearest_quotient_def Let_def a_def b_def q_def r_def)
  ultimately show ?thesis
    by (simp only: quot)
qed

lemma fp_remainder_of_int:
  assumes "remainder x y = Some r"
  shows "fp_remainder (Finite (of_int x)) (Finite (of_int y)) = Finite (of_int r)"
proof -
  from assms have y: "y \<noteq> 0" and r: "r = x - nearest_quotient x y * y"
    by (auto simp add: remainder_def split: if_splits)
  show ?thesis
    using y by (simp add: round_half_even_quotient_of_int r)
qed

section \<open>Properties of \<open>angle\<close>\<close>

lemmas angle_eval =
  normalize_def degrees_turn_def arcsecs_turn_def arcmins_turn_def gons_turn_def
  angle_ctor_def turn_def less_fp_def trunc_def Let_def as_def conversion_t_def
  to_int_def representable_def INT_MIN_def INT_MAX_def int_divide_def fmod_def








subsection \<open>\<open>fmod\<close> on finite floating-point values\<close>









lemma fixed_point_rounding_of_int: "fixed_point_rounding (of_int n) = Finite (of_int n)"
proof -
  have "\<lfloor>real_of_int n * 1024 + 1 / 2\<rfloor> = n * 1024"
    by (rule floor_unique) simp_all
  then show ?thesis by (simp add: fixed_point_rounding_def)
qed


text \<open>
  With this rounding a small negative start ends at a full turn: the sum of the start
  and the turn rounds to the turn.
\<close>

lemma normalize_rounds_up_to_turn:
  "normalize (degrees_turn (Floating_type 53 fixed_point_rounding))
     (angle_ctor (Fp_val (Finite (- (1 / 4096)))))
   = Some (angle_ctor (Fp_val (Finite 360)))"
proof -
  have r360: "fixed_point_rounding 360 = Finite 360"
    using fixed_point_rounding_of_int [of 360] by simp
  have r0: "fixed_point_rounding 0 = Finite 0"
    using fixed_point_rounding_of_int [of 0] by simp
  have t: "trunc (- (1 / 4096) / 360) = 0"
    by (simp add: trunc_def)
  have "\<lfloor>(- (1 / 4096) + 360) * 1024 + 1 / 2\<rfloor> = (368640::int)"
    by (rule floor_unique) simp_all
  then have s: "fixed_point_rounding (- (1 / 4096) + 360) = Finite 360"
    by (simp add: fixed_point_rounding_def)
  show ?thesis
    using r360 r0 s t
    by (simp add: normalize_def degrees_turn_def angle_ctor_def turn_def less_fp_def Let_def)
qed

subsection \<open>Conversion\<close>

text \<open>
  C5: converting an angle to its own turn policy returns the stored value unchanged,
  for every turn policy.
\<close>

theorem as_same_turn_identity: "as Turn Turn a = Some (angle_v a)"
  by (simp add: as_def)

lemma has_type_Int: "has_type Int_type v \<Longrightarrow> \<exists>i. v = Int_val i \<and> representable i"
  by (cases v) simp_all

lemma has_type_Floating: "has_type (Floating_type k rnd) v \<Longrightarrow> \<exists>x. v = Fp_val x"
  by (cases v) simp_all

lemma common_type_Int:
  "common_type S T = Int_type \<longleftrightarrow> S = Int_type \<and> T = Int_type"
  by (cases S; cases T) simp_all

lemma cast_to_common_floating:
  assumes "has_type S v"
    and "common_type S S' = Floating_type k rnd \<or> common_type S' S = Floating_type k rnd"
  shows "cast S (Floating_type k rnd) v = Some (Fp_val (to_fp rnd v))"
proof (cases S)
  case Int_type
  with assms(1) obtain i where "v = Int_val i" by (auto dest: has_type_Int)
  with Int_type show ?thesis by simp
next
  case (Floating_type k1 rnd1)
  with assms(1) obtain x where v: "v = Fp_val x" by (auto dest: has_type_Floating)
  have "k1 \<le> k"
    using assms(2) Floating_type by (cases S') (auto split: if_splits)
  then show ?thesis
    using Floating_type v by (cases x) simp_all
qed

lemma as_int:
  assumes "OutTurn \<noteq> Turn" and "conversion_t Turn OutTurn = Int_type"
    and "has_type (turn_type OutTurn) (turn_value OutTurn)"
    and "has_type (turn_type Turn) (turn Turn)"
    and "has_type (turn_type Turn) (angle_v a)"
  shows "\<exists>out full i. turn_value OutTurn = Int_val out \<and> turn Turn = Int_val full
           \<and> angle_v a = Int_val i
           \<and> as Turn OutTurn a =
               (if full = 0 \<or> \<not> representable (out sdiv full)
                   \<or> \<not> representable (out sdiv full * i)
                then None else Some (Int_val (out sdiv full * i)))"
proof -
  from assms(2) have T: "turn_type OutTurn = Int_type" "turn_type Turn = Int_type"
    by (simp_all add: conversion_t_def common_type_Int)
  from assms(3) T obtain out where out: "turn_value OutTurn = Int_val out" "representable out"
    by (auto dest: has_type_Int)
  from assms(4) T obtain full where full: "turn Turn = Int_val full" "representable full"
    by (auto dest: has_type_Int)
  from assms(5) T obtain i where i: "angle_v a = Int_val i" "representable i"
    by (auto dest: has_type_Int)
  have "as Turn OutTurn a =
      (if full = 0 \<or> \<not> representable (out sdiv full) \<or> \<not> representable (out sdiv full * i)
       then None else Some (Int_val (out sdiv full * i)))"
    using assms(1) T out full i
    by (simp add: as_def conversion_t_def Let_def to_int_def int_divide_def)
  with out(1) full(1) i(1) show ?thesis by blast
qed

lemma as_floating:
  assumes "OutTurn \<noteq> Turn" and "conversion_t Turn OutTurn = Floating_type k rnd"
    and "has_type (turn_type OutTurn) (turn_value OutTurn)"
    and "has_type (turn_type Turn) (turn Turn)"
    and "has_type (turn_type Turn) (angle_v a)"
  shows "as Turn OutTurn a =
           Some (Fp_val (fp_mul rnd
                   (fp_div rnd (to_fp rnd (turn_value OutTurn)) (to_fp rnd (turn Turn)))
                   (to_fp rnd (angle_v a))))"
proof -
  have c: "common_type (turn_type OutTurn) (turn_type Turn) = Floating_type k rnd"
    using assms(2) by (simp add: conversion_t_def)
  have c1: "cast (turn_type OutTurn) (Floating_type k rnd) (turn_value OutTurn)
      = Some (Fp_val (to_fp rnd (turn_value OutTurn)))"
    using assms(3) c by (intro cast_to_common_floating [where S' = "turn_type Turn"]) simp_all
  have c2: "cast (turn_type Turn) (Floating_type k rnd) (turn Turn)
      = Some (Fp_val (to_fp rnd (turn Turn)))"
    using assms(4) c by (intro cast_to_common_floating [where S' = "turn_type OutTurn"]) simp_all
  have c3: "cast (turn_type Turn) (Floating_type k rnd) (angle_v a)
      = Some (Fp_val (to_fp rnd (angle_v a)))"
    using assms(5) c by (intro cast_to_common_floating [where S' = "turn_type OutTurn"]) simp_all
  show ?thesis
    using assms(1,2) c1 c2 c3 by (simp add: as_def Let_def)
qed

text \<open>
  C6: for an output policy other than the angle's own, \<open>as<OutTurn>()\<close> is the quotient
  of the two turn values times the stored value, each operand converted to the common
  type of the two policies' number types and both operations done in that type: one
  division and one multiplication. The common type is \<open>int\<close> for two \<open>int\<close> policies and
  otherwise the floating-point type among the two, the one of the higher rank when
  both are floating-point types. When the common type is \<open>int\<close>, the division
  truncates and the result is undefined for a zero turn value and for a quotient or a
  product that is not representable; when it is a floating-point type, both
  operations round with the rounding of that type.
\<close>

theorem as_other_turn:
  assumes "OutTurn \<noteq> Turn"
    and "has_type (turn_type OutTurn) (turn_value OutTurn)"
    and "has_type (turn_type Turn) (turn Turn)"
    and "has_type (turn_type Turn) (angle_v a)"
  shows "(conversion_t Turn OutTurn = Int_type
            \<longleftrightarrow> turn_type Turn = Int_type \<and> turn_type OutTurn = Int_type)
    \<and> (turn_type Turn = Int_type \<and> turn_type OutTurn = Floating_type kb rndb
          \<longrightarrow> conversion_t Turn OutTurn = Floating_type kb rndb)
    \<and> (turn_type Turn = Floating_type ka rnda \<and> turn_type OutTurn = Int_type
          \<longrightarrow> conversion_t Turn OutTurn = Floating_type ka rnda)
    \<and> (turn_type Turn = Floating_type ka rnda \<and> turn_type OutTurn = Floating_type kb rndb
          \<longrightarrow> conversion_t Turn OutTurn
                = (if kb < ka then Floating_type ka rnda else Floating_type kb rndb))
    \<and> (conversion_t Turn OutTurn = Int_type \<longrightarrow>
         (\<exists>out full i. turn_value OutTurn = Int_val out \<and> turn Turn = Int_val full
            \<and> angle_v a = Int_val i
            \<and> as Turn OutTurn a =
                (if full = 0 \<or> \<not> representable (out sdiv full)
                    \<or> \<not> representable (out sdiv full * i)
                 then None else Some (Int_val (out sdiv full * i)))))
    \<and> (conversion_t Turn OutTurn = Floating_type k rnd \<longrightarrow>
         as Turn OutTurn a =
           Some (Fp_val (fp_mul rnd
                   (fp_div rnd (to_fp rnd (turn_value OutTurn)) (to_fp rnd (turn Turn)))
                   (to_fp rnd (angle_v a)))))"
proof -
  have t1: "conversion_t Turn OutTurn = Int_type
      \<longleftrightarrow> turn_type Turn = Int_type \<and> turn_type OutTurn = Int_type"
    by (auto simp add: conversion_t_def common_type_Int)
  have t2: "turn_type Turn = Int_type \<and> turn_type OutTurn = Floating_type kb rndb
      \<longrightarrow> conversion_t Turn OutTurn = Floating_type kb rndb"
    by (simp add: conversion_t_def)
  have t3: "turn_type Turn = Floating_type ka rnda \<and> turn_type OutTurn = Int_type
      \<longrightarrow> conversion_t Turn OutTurn = Floating_type ka rnda"
    by (simp add: conversion_t_def)
  have t4: "turn_type Turn = Floating_type ka rnda \<and> turn_type OutTurn = Floating_type kb rndb
      \<longrightarrow> conversion_t Turn OutTurn
            = (if kb < ka then Floating_type ka rnda else Floating_type kb rndb)"
    by (simp add: conversion_t_def)
  note i = as_int [OF assms(1) _ assms(2,3,4)]
  note f = as_floating [OF assms(1) _ assms(2,3,4), of k rnd]
  from t1 t2 t3 t4 i f show ?thesis by blast
qed

theorem as_other_turn_witness:
  "arcmins_turn Int_type \<noteq> degrees_turn Int_type
   \<and> has_type Int_type (turn_value (arcmins_turn Int_type))
   \<and> has_type Int_type (turn (degrees_turn Int_type))
   \<and> has_type Int_type (angle_v (angle_ctor (Int_val 2)))
   \<and> conversion_t (degrees_turn Int_type) (arcmins_turn Int_type) = Int_type
   \<and> as (degrees_turn Int_type) (arcmins_turn Int_type) (angle_ctor (Int_val 2))
       = Some (Int_val 120)
   \<and> conversion_t (degrees_turn Int_type) (gons_turn (Floating_type 53 fixed_point_rounding))
       = Floating_type 53 fixed_point_rounding
   \<and> as (degrees_turn Int_type) (gons_turn (Floating_type 53 fixed_point_rounding))
        (angle_ctor (Int_val 2))
       = Some (Fp_val (fp_mul fixed_point_rounding
                  (fp_div fixed_point_rounding (Finite 400) (Finite 360)) (Finite 2)))
   \<and> conversion_t (degrees_turn (Floating_type 53 fixed_point_rounding)) (gons_turn Int_type)
       = Floating_type 53 fixed_point_rounding
   \<and> conversion_t (degrees_turn (Floating_type 24 Finite))
         (gons_turn (Floating_type 53 fixed_point_rounding))
       = Floating_type 53 fixed_point_rounding"
proof -
  let ?D = "degrees_turn Int_type"
  let ?M = "arcmins_turn Int_type"
  let ?G = "gons_turn (Floating_type 53 fixed_point_rounding)"
  let ?a = "angle_ctor (Int_val 2)"
  have ne: "?M \<noteq> ?D" "?G \<noteq> ?D"
    by (simp_all add: arcmins_turn_def degrees_turn_def gons_turn_def)
  have ty: "has_type (turn_type ?M) (turn_value ?M)" "has_type (turn_type ?D) (turn ?D)"
    "has_type (turn_type ?D) (angle_v ?a)" "has_type (turn_type ?G) (turn_value ?G)"
    by (simp_all add: arcmins_turn_def degrees_turn_def gons_turn_def turn_def angle_ctor_def
        representable_def INT_MIN_def INT_MAX_def)
  have tyD: "turn_type ?M = Int_type" "turn_type ?D = Int_type"
    by (simp_all add: arcmins_turn_def degrees_turn_def)
  have cm: "conversion_t ?D ?M = Int_type"
    by (simp add: conversion_t_def arcmins_turn_def degrees_turn_def)
  have cg: "conversion_t ?D ?G = Floating_type 53 fixed_point_rounding"
    by (simp add: conversion_t_def gons_turn_def degrees_turn_def)
  from as_other_turn [OF ne(1) ty(1,2,3)] cm
  obtain out full i where v: "turn_value ?M = Int_val out" "turn ?D = Int_val full"
      "angle_v ?a = Int_val i"
    and r: "as ?D ?M ?a =
      (if full = 0 \<or> \<not> representable (out sdiv full) \<or> \<not> representable (out sdiv full * i)
       then None else Some (Int_val (out sdiv full * i)))"
    by blast
  from v have "out = 21600" "full = 360" "i = 2"
    by (simp_all add: arcmins_turn_def degrees_turn_def turn_def angle_ctor_def)
  with r have e1: "as ?D ?M ?a = Some (Int_val 120)"
    by (simp add: representable_def INT_MIN_def INT_MAX_def)
  from as_other_turn [OF ne(2) ty(4,2,3), where k = 53 and rnd = fixed_point_rounding] cg
  have "as ?D ?G ?a =
      Some (Fp_val (fp_mul fixed_point_rounding
              (fp_div fixed_point_rounding (to_fp fixed_point_rounding (turn_value ?G))
                 (to_fp fixed_point_rounding (turn ?D)))
              (to_fp fixed_point_rounding (angle_v ?a))))"
    by blast
  then have e2: "as ?D ?G ?a =
      Some (Fp_val (fp_mul fixed_point_rounding
              (fp_div fixed_point_rounding (Finite 400) (Finite 360)) (Finite 2)))"
    using fixed_point_rounding_of_int [of 400] fixed_point_rounding_of_int [of 360]
      fixed_point_rounding_of_int [of 2]
    by (simp add: gons_turn_def degrees_turn_def turn_def angle_ctor_def)
  let ?F = "degrees_turn (Floating_type 53 fixed_point_rounding)"
  let ?S = "degrees_turn (Floating_type 24 Finite)"
  let ?I = "gons_turn Int_type"
  let ?b = "angle_ctor (Fp_val (Finite 2))"
  have ne': "?I \<noteq> ?F" "?G \<noteq> ?S"
    by (simp_all add: degrees_turn_def gons_turn_def)
  have ty': "has_type (turn_type ?I) (turn_value ?I)" "has_type (turn_type ?F) (turn ?F)"
    "has_type (turn_type ?F) (angle_v ?b)" "has_type (turn_type ?S) (turn ?S)"
    "has_type (turn_type ?S) (angle_v ?b)"
    by (simp_all add: degrees_turn_def gons_turn_def turn_def angle_ctor_def
        representable_def INT_MIN_def INT_MAX_def)
  have tt: "turn_type ?F = Floating_type 53 fixed_point_rounding" "turn_type ?I = Int_type"
    "turn_type ?S = Floating_type 24 Finite" "turn_type ?G = Floating_type 53 fixed_point_rounding"
    by (simp_all add: degrees_turn_def gons_turn_def)
  from as_other_turn [OF ne'(1) ty'(1,2,3), where ka = 53 and rnda = fixed_point_rounding]
    tt(1,2)
  have c3: "conversion_t ?F ?I = Floating_type 53 fixed_point_rounding"
    by blast
  from as_other_turn [OF ne'(2) ty(4) ty'(4,5), where ka = 24 and rnda = Finite
      and kb = 53 and rndb = fixed_point_rounding] tt(3,4)
  have c4: "conversion_t ?S ?G = Floating_type 53 fixed_point_rounding"
    by simp
  from ne(1) ty(1,2,3) tyD cm cg e1 e2 c3 c4 show ?thesis by simp
qed

text \<open>
  In \<open>int\<close>, a million degrees have no value in arc seconds: the product is not
  representable.
\<close>

lemma as_int_overflow:
  "as (degrees_turn Int_type) (arcsecs_turn Int_type) (angle_ctor (Int_val 1000000)) = None"
  by (simp add: angle_eval)

section \<open>Properties of approximate equality\<close>

text \<open>
  C8: \<open>approx_equal(a, b, tol)\<close> is true exactly when \<open>b - tol \<le> a\<close> and \<open>a \<le> b + tol\<close>;
  \<open>approx_equal(1.1, 1.0, 0.01)\<close> is false.
\<close>

theorem approx_equal_tol_two_sided:
  "(approx_equal_tol a b tol \<longleftrightarrow> b - tol \<le> a \<and> a \<le> b + tol)
   \<and> \<not> approx_equal_tol (11 / 10 :: real) 1 (1 / 100)"
  by (simp add: approx_equal_tol_def)

lemma approx_equal_range_take:
  "approx_equal_range xs (take (length xs) ys) tol = approx_equal_range xs ys tol"
proof (induction xs ys tol rule: approx_equal_range.induct)
  case (1 ys tolerance)
  then show ?case by simp
next
  case (2 x xs tolerance)
  then show ?case by simp
next
  case (3 x xs y ys tolerance)
  then show ?case by simp
qed

lemma approx_equal_range_defined:
  "length xs \<le> length ys \<Longrightarrow>
   approx_equal_range xs ys tol
     = Some (\<forall>i < length xs. \<not> abs (xs ! i - ys ! i) > tol)"
proof (induction xs ys tol rule: approx_equal_range.induct)
  case (1 ys tolerance)
  then show ?case by simp
next
  case (2 x xs tolerance)
  then show ?case by simp
next
  case (3 x xs y ys tolerance)
  then show ?case
    by (auto simp add: less_Suc_eq_0_disj)
qed

text \<open>
  C9: the overload with two end iterators returns what the overload with one returns.
  The second end is ignored: the result is the same for every position of it, and it
  only depends on as many elements behind \<open>begin2\<close> as the first range has.
\<close>

theorem approx_equal_range_ends_ignores_end2:
  "approx_equal_range_ends xs ys end2 tol = approx_equal_range xs ys tol
   \<and> approx_equal_range_ends xs ys end2 tol = approx_equal_range_ends xs ys end2' tol
   \<and> approx_equal_range_ends xs ys end2 tol
       = approx_equal_range xs (take (length xs) ys) tol
   \<and> approx_equal_range_ends [1, 2 :: int] [1, 2, 50] 3 0 = Some True
   \<and> approx_equal_range_ends [1, 2, 50 :: int] [1, 2] 2 0 = None"
  by (simp add: approx_equal_range_ends_def approx_equal_range_take)

section \<open>Properties of rounding methods and rounded numbers\<close>

lemmas rounded_eval =
  rounded_ctor_def corrected_with_def assign_value_def corrected_def
  rounding_method_call.simps remainder_def nearest_quotient_def Let_def
  round_to_nearest_def int_type_def nearbyint_def rounded_value_def
  to_int_def representable_def INT_MIN_def INT_MAX_def

lemma round_to_nearest_int_type:
  "round_to_nearest int_type u = Round_to_nearest (if u \<le> 0 then 1 else u)"
  by (simp add: round_to_nearest_def int_type_def)

lemma representable_1: "representable 1"
  by (simp add: representable_def INT_MIN_def INT_MAX_def)

lemma constructed_round_to_nearest:
  "representable u \<Longrightarrow> constructed (round_to_nearest int_type u)"
  by (simp add: round_to_nearest_int_type constructed_def representable_1)

lemma constructed_iff:
  "constructed rm \<longleftrightarrow>
     rm = Round_to_nearest_int \<or> (\<exists>u. representable u \<and> rm = round_to_nearest int_type u)"
proof (cases rm)
  case Round_to_nearest_int
  then show ?thesis by (simp add: constructed_def)
next
  case (Round_to_nearest k)
  show ?thesis
  proof
    assume "constructed rm"
    with Round_to_nearest have k: "0 < k" "representable k" by (simp_all add: constructed_def)
    then have "rm = round_to_nearest int_type k"
      using Round_to_nearest by (simp add: round_to_nearest_int_type)
    with k(2)
    show "rm = Round_to_nearest_int \<or> (\<exists>u. representable u \<and> rm = round_to_nearest int_type u)"
      by blast
  next
    assume "rm = Round_to_nearest_int \<or> (\<exists>u. representable u \<and> rm = round_to_nearest int_type u)"
    with Round_to_nearest obtain u where "representable u" "rm = round_to_nearest int_type u"
      by auto
    then show "constructed rm" by (simp add: constructed_round_to_nearest)
  qed
qed

subsection \<open>The quotient of \<open>remainder\<close>\<close>

lemma nearest_quotient_pos:
  assumes "0 < y"
  shows "2 * \<bar>x - nearest_quotient x y * y\<bar> \<le> y"
    and "2 * \<bar>x - nearest_quotient x y * y\<bar> = y \<Longrightarrow> even (nearest_quotient x y)"
proof -
  define q r where "q = x div y" and "r = x mod y"
  have x: "x = q * y + r" and r: "0 \<le> r" "r < y"
    using assms by (simp_all add: q_def r_def)
  have nq: "nearest_quotient x y =
      (if 2 * r < y then q else if y < 2 * r then q + 1 else if even q then q else q + 1)"
    using assms by (simp add: nearest_quotient_def Let_def q_def r_def)
  have d0: "x - q * y = r" using x by simp
  have d1: "x - (q + 1) * y = r - y" using x by (simp add: algebra_simps)
  show "2 * \<bar>x - nearest_quotient x y * y\<bar> \<le> y"
    using r by (simp add: nq d0 d1)
  show "even (nearest_quotient x y)" if "2 * \<bar>x - nearest_quotient x y * y\<bar> = y"
    using that r by (simp add: nq d0 d1 split: if_splits)
qed

lemma nearest_quotient_negative:
  "y < 0 \<Longrightarrow> nearest_quotient x y = nearest_quotient (- x) (- y)"
  by (simp add: nearest_quotient_def)

lemma nearest_quotient_nonzero:
  assumes "y \<noteq> 0"
  shows "2 * \<bar>x - nearest_quotient x y * y\<bar> \<le> \<bar>y\<bar>"
    and "2 * \<bar>x - nearest_quotient x y * y\<bar> = \<bar>y\<bar> \<Longrightarrow> even (nearest_quotient x y)"
proof -
  let ?n = "nearest_quotient x y"
  have "2 * \<bar>x - ?n * y\<bar> \<le> \<bar>y\<bar> \<and> (2 * \<bar>x - ?n * y\<bar> = \<bar>y\<bar> \<longrightarrow> even ?n)"
  proof (cases "0 < y")
    case True
    with nearest_quotient_pos [OF True, of x] show ?thesis by simp
  next
    case False
    with assms have neg: "y < 0" by simp
    then have pos: "0 < - y" by simp
    have n: "?n = nearest_quotient (- x) (- y)"
      using neg by (rule nearest_quotient_negative)
    have "\<bar>- x - ?n * (- y)\<bar> = \<bar>x - ?n * y\<bar>"
      by (simp add: abs_minus_commute)
    with nearest_quotient_pos [OF pos, of "- x"] n neg show ?thesis by simp
  qed
  then show "2 * \<bar>x - ?n * y\<bar> \<le> \<bar>y\<bar>"
    and "2 * \<bar>x - ?n * y\<bar> = \<bar>y\<bar> \<Longrightarrow> even ?n"
    by blast+
qed

text \<open>
  The definition of \<open>remainder\<close> in the C standard: \<open>n\<close> is the integer nearest to the
  exact quotient, and even when it is half a unit away from it.
\<close>

lemma nearest_quotient_exact_quotient:
  assumes "y \<noteq> 0"
  shows "\<bar>real_of_int (nearest_quotient x y) - real_of_int x / real_of_int y\<bar> \<le> 1 / 2"
    and "\<bar>real_of_int (nearest_quotient x y) - real_of_int x / real_of_int y\<bar> = 1 / 2
         \<Longrightarrow> even (nearest_quotient x y)"
proof -
  let ?n = "nearest_quotient x y"
  have y: "0 < \<bar>real_of_int y\<bar>" using assms by simp
  have "real_of_int ?n - real_of_int x / real_of_int y
          = - (real_of_int (x - ?n * y) / real_of_int y)"
    using assms by (simp add: field_simps)
  then have d: "\<bar>real_of_int ?n - real_of_int x / real_of_int y\<bar>
          = real_of_int \<bar>x - ?n * y\<bar> / real_of_int \<bar>y\<bar>"
    by (simp only: abs_minus_cancel abs_divide of_int_abs)
  define e where "e = real_of_int \<bar>x - ?n * y\<bar>"
  define b where "b = real_of_int \<bar>y\<bar>"
  have b: "0 < b" using assms by (simp add: b_def)
  have d': "\<bar>real_of_int ?n - real_of_int x / real_of_int y\<bar> = e / b"
    using d by (simp only: e_def b_def)
  have "real_of_int (2 * \<bar>x - ?n * y\<bar>) \<le> real_of_int \<bar>y\<bar>"
    using nearest_quotient_nonzero(1) [OF assms, of x] by (simp only: of_int_le_iff)
  then have "2 * e \<le> b" by (simp add: e_def b_def)
  then have "e / b \<le> 1 / 2" using b by (simp add: field_simps)
  then show "\<bar>real_of_int ?n - real_of_int x / real_of_int y\<bar> \<le> 1 / 2"
    by (simp only: d')
  show "even ?n" if "\<bar>real_of_int ?n - real_of_int x / real_of_int y\<bar> = 1 / 2"
  proof -
    from that have "e / b = 1 / 2" by (simp only: d')
    then have "2 * e = b" using b by (simp add: field_simps)
    then have "real_of_int (2 * \<bar>x - ?n * y\<bar>) = real_of_int \<bar>y\<bar>"
      by (simp add: e_def b_def)
    then have "2 * \<bar>x - ?n * y\<bar> = \<bar>y\<bar>"
      by (simp only: of_int_eq_iff)
    then show ?thesis
      by (rule nearest_quotient_nonzero(2) [OF assms])
  qed
qed











text \<open>
  C7, as stated, fails for a floating-point type: the test \<open>unit_ <= T(0)\<close> is false
  for a NaN, so a NaN argument stays the unit, and a NaN is not positive.
\<close>

theorem round_to_nearest_nan_counterexample:
  "unit_of (round_to_nearest double_type NaN) = NaN \<and> \<not> (0 < unit_of (round_to_nearest double_type NaN))"
  by (simp add: round_to_nearest_def double_type_def less_eq_fp_def less_fp_def zero_fp_def)

text \<open>
  C7, amended: a constructor argument that is at most zero is replaced by 1 for an
  integral type and by the type's epsilon otherwise, and every other argument is
  kept. So the unit is positive for every argument that compares with zero (every
  argument other than a NaN), given that the default is positive, and a NaN argument
  of a floating-point type is kept. On \<open>int\<close> the unit is positive for every argument
  and \<open>remainder\<close> has a result for every input: it never sees a zero unit.
\<close>

theorem round_to_nearest_unit_positive:
  fixes T :: "'a::{zero,one,ord} number_type" and u :: 'a and k x :: int
    and F :: "fp number_type"
  shows "unit_of (round_to_nearest T u)
           = (if u \<le> 0 then (if is_integral T then 1 else epsilon T) else u)
         \<and> (0 < (if is_integral T then 1 else epsilon T) \<and> (u \<le> 0 \<or> 0 < u)
              \<longrightarrow> 0 < unit_of (round_to_nearest T u))
         \<and> unit_of (round_to_nearest F NaN) = NaN
         \<and> 0 < unit_of (round_to_nearest int_type k)
         \<and> unit_of (round_to_nearest int_type k) \<noteq> 0
         \<and> (\<exists>r. remainder x (unit_of (round_to_nearest int_type k)) = Some r)"
proof -
  have a: "unit_of (round_to_nearest T u)
             = (if u \<le> 0 then (if is_integral T then 1 else epsilon T) else u)"
    by (simp add: round_to_nearest_def)
  have b: "0 < (if is_integral T then 1 else epsilon T) \<and> (u \<le> 0 \<or> 0 < u)
      \<longrightarrow> 0 < unit_of (round_to_nearest T u)"
    by (auto simp add: round_to_nearest_def)
  have n: "unit_of (round_to_nearest F NaN) = NaN"
    by (simp add: round_to_nearest_def less_eq_fp_def)
  have c: "0 < unit_of (round_to_nearest int_type k)"
    by (simp add: round_to_nearest_int_type)
  then have c': "unit_of (round_to_nearest int_type k) \<noteq> 0"
    by simp
  then have d: "\<exists>r. remainder x (unit_of (round_to_nearest int_type k)) = Some r"
    by (simp add: remainder_def)
  from a b n c c' d show ?thesis by blast
qed

theorem round_to_nearest_unit_positive_witness:
  "0 < (if is_integral double_type then 1 else epsilon double_type)
   \<and> (0::fp) \<le> 0
   \<and> unit_of (round_to_nearest double_type 0) = Finite (1 / 2 ^ 52)
   \<and> 0 < unit_of (round_to_nearest double_type 0)
   \<and> (0::fp) < PInf
   \<and> 0 < unit_of (round_to_nearest double_type PInf)
   \<and> unit_of (round_to_nearest int_type (- 3)) = 1
   \<and> remainder 7 (unit_of (round_to_nearest int_type (- 3))) = Some 0"
proof -
  have h1: "0 < (if is_integral double_type then 1 else epsilon double_type)"
    by (simp add: double_type_def less_fp_def zero_fp_def)
  have h2: "(0::fp) \<le> 0"
    by (simp add: less_eq_fp_def zero_fp_def)
  have h3: "(0::fp) < PInf"
    by (simp add: less_fp_def zero_fp_def)
  from round_to_nearest_unit_positive [of double_type 0] h1 h2
  have p0: "0 < unit_of (round_to_nearest double_type 0)" by blast
  from round_to_nearest_unit_positive [of double_type 0] h2
  have u0: "unit_of (round_to_nearest double_type 0) = Finite (1 / 2 ^ 52)"
    by (simp add: double_type_def)
  from round_to_nearest_unit_positive [of double_type PInf] h1 h3
  have p1: "0 < unit_of (round_to_nearest double_type PInf)" by blast
  have i1: "unit_of (round_to_nearest int_type (- 3)) = 1"
    by (simp add: round_to_nearest_int_type)
  have i2: "remainder 7 (unit_of (round_to_nearest int_type (- 3))) = Some 0"
    by (simp add: round_to_nearest_int_type remainder_def nearest_quotient_def)
  from h1 h2 h3 p0 u0 p1 i1 i2 show ?thesis by (intro conjI)
qed




subsection \<open>The invariant of \<open>rounded\<close>\<close>










subsection \<open>Operators that return plain numbers\<close>


subsection \<open>Unary minus\<close>

text \<open>
  C10: \<open>-x\<close> is constructed from \<open>-x.value()\<close> and a default-constructed rounding
  method, not from the method of \<open>x\<close>; for \<open>round_to_nearest\<close> the default unit is 1.
  With unit 4 and \<open>x = 8\<close>, \<open>-x\<close> stores -8 with unit 1, and \<open>+= 1\<close> on it stores -7,
  while \<open>+= 1\<close> on -8 with the unit of \<open>x\<close> stores -8.
\<close>

theorem uminus_rounded_default_policy:
  "uminus_rounded x = rounded_ctor (- rounded_value x) (default_rounding_method (policy x))
   \<and> default_rounding_method (round_to_nearest int_type u) = round_to_nearest int_type 0
   \<and> round_to_nearest int_type 0 = Round_to_nearest 1
   \<and> rounded_ctor 8 (round_to_nearest int_type 4)
       = Some \<lparr>policy = Round_to_nearest 4, rounded_v = 8\<rparr>
   \<and> uminus_rounded \<lparr>policy = Round_to_nearest 4, rounded_v = 8\<rparr>
       = Some \<lparr>policy = Round_to_nearest 1, rounded_v = - 8\<rparr>
   \<and> add_assign \<lparr>policy = Round_to_nearest 1, rounded_v = - 8\<rparr> 1
       = Some \<lparr>policy = Round_to_nearest 1, rounded_v = - 7\<rparr>
   \<and> add_assign \<lparr>policy = Round_to_nearest 4, rounded_v = - 8\<rparr> 1
       = Some \<lparr>policy = Round_to_nearest 4, rounded_v = - 8\<rparr>"
proof -
  have a: "uminus_rounded x
      = rounded_ctor (- rounded_value x) (default_rounding_method (policy x))"
    by (simp add: uminus_rounded_def)
  have b: "default_rounding_method (round_to_nearest int_type u) = round_to_nearest int_type 0"
    by (simp add: default_rounding_method_def round_to_nearest_int_type)
  have c: "round_to_nearest int_type 0 = Round_to_nearest 1"
    by (simp add: round_to_nearest_int_type)
  have ex:
    "rounded_ctor 8 (round_to_nearest int_type 4)
       = Some \<lparr>policy = Round_to_nearest 4, rounded_v = 8\<rparr>"
    "uminus_rounded \<lparr>policy = Round_to_nearest 4, rounded_v = 8\<rparr>
       = Some \<lparr>policy = Round_to_nearest 1, rounded_v = - 8\<rparr>"
    "add_assign \<lparr>policy = Round_to_nearest 1, rounded_v = - 8\<rparr> 1
       = Some \<lparr>policy = Round_to_nearest 1, rounded_v = - 7\<rparr>"
    "add_assign \<lparr>policy = Round_to_nearest 4, rounded_v = - 8\<rparr> 1
       = Some \<lparr>policy = Round_to_nearest 4, rounded_v = - 8\<rparr>"
    by (simp_all add: uminus_rounded_def default_rounding_method_def add_assign_def
        rounded_eval)
  from a b c ex show ?thesis by (intro conjI)
qed

end
